theory Spec2Isabelle
  imports Main
begin

section \<open>Python strings\<close>

text \<open>
  A Python \<open>str\<close> is a sequence of Unicode code points, so it is modelled as a list of
  natural numbers. The templates, defaults and file headers of the two scripts contain
  Cyrillic text; those constants are written as code point lists. ASCII literals are
  written with \<open>py\<close>.
\<close>

type_synonym pystr = "nat list"

definition py :: "string \<Rightarrow> pystr" where
  "py s = map of_char s"

text \<open>\<open>s.startswith(p)\<close>\<close>

fun startswith :: "pystr \<Rightarrow> pystr \<Rightarrow> bool" where
  "startswith s [] = True"
| "startswith [] (p # ps) = False"
| "startswith (c # cs) (p # ps) = (c = p \<and> startswith cs ps)"

text \<open>\<open>sep in s\<close>: some position of \<open>s\<close> starts with \<open>sep\<close>.\<close>

fun contains :: "pystr \<Rightarrow> pystr \<Rightarrow> bool" where
  "contains sep [] = (sep = [])"
| "contains sep (c # cs) = (startswith (c # cs) sep \<or> contains sep cs)"

text \<open>
  The leftmost occurrence of \<open>sep\<close> in \<open>s\<close>: the text before it and the text after it
  (Python's \<open>s.partition(sep)\<close>, with \<open>None\<close> when there is no occurrence).
\<close>

fun split_first :: "pystr \<Rightarrow> pystr \<Rightarrow> (pystr \<times> pystr) option" where
  "split_first sep [] = (if sep = [] then Some ([], []) else None)"
| "split_first sep (c # cs) =
     (if startswith (c # cs) sep then Some ([], drop (length sep) (c # cs))
      else (case split_first sep cs of
              None \<Rightarrow> None
            | Some (a, b) \<Rightarrow> Some (c # a, b)))"

text \<open>
  \<open>s.split(sep)\<close>: cut at the leftmost occurrence and go on in the rest, so occurrences
  are found left to right and do not overlap. Both call sites pass a non-empty literal
  separator (Python raises \<open>ValueError\<close> on an empty one).
\<close>

function str_split :: "pystr \<Rightarrow> pystr \<Rightarrow> pystr list" where
  "str_split sep s =
     (if sep = [] then [s]
      else (case split_first sep s of
              None \<Rightarrow> [s]
            | Some (a, b) \<Rightarrow> a # str_split sep b))"
  by pat_completeness auto
termination
proof (relation "measure (\<lambda>(sep, s). length s)")
  show "wf (measure (\<lambda>(sep, s). length s))" by simp
next
  fix sep s :: pystr and x2 :: "pystr \<times> pystr" and a b :: pystr
  assume sep: "sep \<noteq> []" and sp: "split_first sep s = Some x2" and x2: "(a, b) = x2"
  have "\<And>a b. split_first sep s = Some (a, b) \<Longrightarrow> length b < length s"
    using sep by (induction s) (auto split: if_splits option.splits)
  with sp x2 show "((sep, b), (sep, s)) \<in> measure (\<lambda>(sep, s). length s)"
    by auto
qed

declare str_split.simps [simp del]

text \<open>
  \<open>str.strip()\<close> removes leading and trailing whitespace; these are the code points for
  which \<open>str.isspace\<close> holds.
\<close>

definition is_space :: "nat \<Rightarrow> bool" where
  "is_space c =
     ((9 \<le> c \<and> c \<le> 13) \<or> (28 \<le> c \<and> c \<le> 32) \<or> c = 133 \<or> c = 160 \<or> c = 5760
      \<or> (8192 \<le> c \<and> c \<le> 8202) \<or> c = 8232 \<or> c = 8233 \<or> c = 8239 \<or> c = 8287
      \<or> c = 12288)"

definition str_strip :: "pystr \<Rightarrow> pystr" where
  "str_strip s = rev (dropWhile is_space (rev (dropWhile is_space s)))"

section \<open>Exceptions and decoded values\<close>

datatype gw_fault = Transport | Auth | Quota

datatype exn =
    GatewayError gw_fault
  | OutputParserException
  | AttributeError
  | TypeError
  | IndexError
  | OSError
  | UnicodeEncodeError

text \<open>
  What the JSON output parser can hand back. A number only ever meets a truth test in
  the scripts, so integers stand for all numbers.
\<close>

datatype jvalue =
    JNull
  | JBool bool
  | JNum int
  | JStr pystr
  | JList "jvalue list"
  | JObj "(pystr \<times> jvalue) list"

type_synonym pydict = "(pystr \<times> jvalue) list"

text \<open>\<open>xs[i]\<close> for a non-negative literal index: \<open>IndexError\<close> out of range.\<close>

definition py_index :: "'a list \<Rightarrow> nat \<Rightarrow> exn + 'a" where
  "py_index xs i = (if i < length xs then Inr (xs ! i) else Inl IndexError)"

text \<open>\<open>d.get(k, default)\<close> on a dict.\<close>

definition get :: "pydict \<Rightarrow> pystr \<Rightarrow> jvalue \<Rightarrow> jvalue" where
  "get d k dflt = (case map_of d k of None \<Rightarrow> dflt | Some v \<Rightarrow> v)"

text \<open>
  Looking up the attribute \<open>get\<close> on a decoded value: only a dict has it, anything
  else raises \<open>AttributeError\<close>.
\<close>

fun as_dict :: "jvalue \<Rightarrow> exn + pydict" where
  "as_dict (JObj fields) = Inr fields"
| "as_dict v = Inl AttributeError"

text \<open>\<open>v[:n]\<close>: strings and lists can be sliced, the other decoded values raise.\<close>

fun slice_to :: "nat \<Rightarrow> jvalue \<Rightarrow> exn + jvalue" where
  "slice_to n (JStr s) = Inr (JStr (take n s))"
| "slice_to n (JList xs) = Inr (JList (take n xs))"
| "slice_to n v = Inl TypeError"

text \<open>\<open>len(v)\<close>\<close>

fun py_len :: "jvalue \<Rightarrow> exn + nat" where
  "py_len (JStr s) = Inr (length s)"
| "py_len (JList xs) = Inr (length xs)"
| "py_len (JObj kvs) = Inr (length kvs)"
| "py_len v = Inl TypeError"

text \<open>Truth value of a decoded value in a condition.\<close>

fun truthy :: "jvalue \<Rightarrow> bool" where
  "truthy JNull = False"
| "truthy (JBool b) = b"
| "truthy (JNum n) = (n \<noteq> 0)"
| "truthy (JStr s) = (s \<noteq> [])"
| "truthy (JList xs) = (xs \<noteq> [])"
| "truthy (JObj kvs) = (kvs \<noteq> [])"

text \<open>\<open>v.strip()\<close>: only a string has the method.\<close>

fun py_strip :: "jvalue \<Rightarrow> exn + jvalue" where
  "py_strip (JStr s) = Inr (JStr (str_strip s))"
| "py_strip v = Inl AttributeError"

section \<open>Console output\<close>

text \<open>
  Encoding text as UTF-8 fails on a surrogate code point (\<open>U+D800\<close> to \<open>U+DFFF\<close>); a
  string decoded from the model's answer can hold one.
\<close>

definition encodable :: "pystr \<Rightarrow> bool" where
  "encodable s = list_all (\<lambda>c. c < 55296 \<or> 57343 < c) s"

text \<open>
  The console is taken to be UTF-8, which the fixed messages of the scripts need
  anyway. \<open>print(f"... {v}")\<close> then raises \<open>UnicodeEncodeError\<close> exactly when the text
  of \<open>v\<close> holds a surrogate. Only a string can bring one in: the text of any other
  decoded value is its \<open>repr\<close>, which escapes them.
\<close>

definition printable :: "jvalue \<Rightarrow> bool" where
  "printable v = (case v of JStr s \<Rightarrow> encodable s | _ \<Rightarrow> True)"

definition py_print :: "jvalue \<Rightarrow> exn + unit" where
  "py_print v = (if printable v then Inr () else Inl UnicodeEncodeError)"

text \<open>
  \<open>if len(str(v)) > n: print(f"... {str(v)[:n]}...") else: print(f"... {v}")\<close>
\<close>

fun print_clipped :: "nat \<Rightarrow> jvalue \<Rightarrow> exn + unit" where
  "print_clipped n (JStr s) =
     (if n < length s then py_print (JStr (take n s)) else py_print (JStr s))"
| "print_clipped n v = Inr ()"

text \<open>Statements in sequence: the first exception leaves the function.\<close>

fun first_error :: "(exn + unit) list \<Rightarrow> exn + unit" where
  "first_error [] = Inr ()"
| "first_error (Inl e # rs) = Inl e"
| "first_error (Inr u # rs) = first_error rs"

section \<open>Removing the code fence (script\_bot.py, code\_chain, lines 311-319)\<close>

definition FENCE :: pystr where
  "FENCE = py ''```''"

definition FENCE_PYTHON :: pystr where
  "FENCE_PYTHON = py ''```python''"

text \<open>Lines 314-317: the two guarded split-and-index expressions.\<close>

definition strip_fence :: "pystr \<Rightarrow> exn + pystr" where
  "strip_fence code =
     (if contains FENCE_PYTHON code then
        (case py_index (str_split FENCE_PYTHON code) 1 of
           Inl e \<Rightarrow> Inl e
         | Inr part \<Rightarrow> py_index (str_split FENCE part) 0)
      else if contains FENCE code then
        (case py_index (str_split FENCE code) 1 of
           Inl e \<Rightarrow> Inl e
         | Inr part \<Rightarrow> py_index (str_split FENCE part) 0)
      else Inr code)"

text \<open>Lines 314-319: the extraction followed by \<open>code.strip()\<close>.\<close>

definition unwrap :: "pystr \<Rightarrow> exn + pystr" where
  "unwrap code = (case strip_fence code of Inl e \<Rightarrow> Inl e | Inr c \<Rightarrow> Inr (str_strip c))"

text \<open>
  For stating results: the text of \<open>s\<close> up to the leftmost occurrence of \<open>sep\<close>, all of
  \<open>s\<close> when there is none.
\<close>

definition before :: "pystr \<Rightarrow> pystr \<Rightarrow> pystr" where
  "before sep s = (case split_first sep s of None \<Rightarrow> s | Some (a, b) \<Rightarrow> a)"

text \<open>
  No tagged opening delimiter starts one or two characters after the closing delimiter
  that follows in \<open>b\<close>: that closing delimiter, if there is one, is not directly followed
  by \<open>`python\<close> or \<open>``python\<close>.
\<close>

definition closes_cleanly :: "pystr \<Rightarrow> bool" where
  "closes_cleanly b =
     (case split_first FENCE b of
        None \<Rightarrow> True
      | Some (x, y) \<Rightarrow> \<not> startswith y (py ''`python'') \<and> \<not> startswith y (py ''``python''))"

section \<open>Stages\<close>

text \<open>
  Both scripts run the same five stages. The model client and the JSON output parser
  are library code: the client is a function from the stage's template and the
  variables passed to \<open>chain.invoke\<close> to the returned text or a failure, the parser a
  partial function from text to a decoded value (\<open>None\<close> where it raises
  \<open>OutputParserException\<close>). The credential is taken to be present, so \<open>create_llm\<close>
  returns. The logger never raises; its calls in the stages and in the save step are
  recorded as events, in order.
\<close>

datatype stage = Analysis | Selection | Structure | Generation | Review

datatype event =
    Started stage
  | Completed stage
  | Fallback stage exn
  | OpenAttempt string
  | Saved string
  | SaveFailed exn

type_synonym gateway = "stage \<Rightarrow> pydict \<Rightarrow> gw_fault + pystr"

type_synonym decoder = "pystr \<Rightarrow> jvalue option"

text \<open>\<open>(prompt | llm | SimpleJsonOutputParser()).invoke(inputs)\<close>\<close>

definition invoke_json :: "gateway \<Rightarrow> decoder \<Rightarrow> stage \<Rightarrow> pydict \<Rightarrow> exn + jvalue" where
  "invoke_json gw dec st inputs =
     (case gw st inputs of
        Inl f \<Rightarrow> Inl (GatewayError f)
      | Inr text \<Rightarrow>
          (case dec text of
             None \<Rightarrow> Inl OutputParserException
           | Some v \<Rightarrow> Inr v))"

text \<open>
  The body shared by the eight structured stages:
  \<^verbatim>\<open>
    try:
        result = chain.invoke({...})
        logger.info(f"... {result.get(...)} ...")
        return result
    except Exception as e:
        logger.warning(...)
        return {...defaults...}
  \<close>
  Every stage's \<open>logger.info\<close> line starts by calling \<open>result.get\<close>, inside the
  \<open>try\<close>; \<open>logline\<close> is what else that line evaluates. The \<open>except\<close> clause catches
  whatever the chain or the log line raised.
\<close>

definition structured_chain ::
  "gateway \<Rightarrow> decoder \<Rightarrow> stage \<Rightarrow> pydict \<Rightarrow> (pydict \<Rightarrow> exn + unit) \<Rightarrow> pydict
     \<Rightarrow> pydict \<times> event list" where
  "structured_chain gw dec st inputs logline defaults =
     (case invoke_json gw dec st inputs of
        Inl e \<Rightarrow> (defaults, [Started st, Fallback st e])
      | Inr result \<Rightarrow>
          (case as_dict result of
             Inl e \<Rightarrow> (defaults, [Started st, Fallback st e])
           | Inr fields \<Rightarrow>
               (case logline fields of
                  Inl e \<Rightarrow> (defaults, [Started st, Fallback st e])
                | Inr u \<Rightarrow> (fields, [Started st, Completed st]))))"

definition plain_log :: "pydict \<Rightarrow> exn + unit" where
  "plain_log fields = Inr ()"

subsection \<open>script\_bot.py\<close>

definition bot_analysis_defaults :: pydict where
  "bot_analysis_defaults =
     [(py ''bot_purpose'',
         JStr [1041, 1072, 1079, 1086, 1074, 1099, 1081, 32, 1092, 1091, 1085, 1082, 1094,
               1080, 1086, 1085, 1072, 1083]),
      (py ''key_features'',
         JStr [1054, 1073, 1088, 1072, 1073, 1086, 1090, 1082, 1072, 32, 1082, 1086, 1084,
               1072, 1085, 1076]),
      (py ''user_interactions'', JStr [1050, 1086, 1084, 1072, 1085, 1076, 1099]),
      (py ''complexity_level'', JStr (py ''simple'')),
      (py ''special_requirements'', JStr [1053, 1077, 1090])]"

definition bot_analysis_inputs :: "pystr \<Rightarrow> pydict" where
  "bot_analysis_inputs description = [(py ''description'', JStr description)]"

definition bot_analysis_chain :: "gateway \<Rightarrow> decoder \<Rightarrow> pystr \<Rightarrow> pydict \<times> event list" where
  "bot_analysis_chain gw dec description =
     structured_chain gw dec Analysis (bot_analysis_inputs description) plain_log
       bot_analysis_defaults"

definition tools_selection_defaults :: pydict where
  "tools_selection_defaults =
     [(py ''framework_version'', JStr (py ''aiogram 3.x'')),
      (py ''database'', JStr (py ''none'')),
      (py ''additional_libraries'', JStr []),
      (py ''api_integrations'', JStr []),
      (py ''middleware_needs'', JStr (py ''logging'')),
      (py ''state_management'', JStr (py ''none''))]"

definition tools_selection_inputs :: "pydict \<Rightarrow> pystr \<Rightarrow> pydict" where
  "tools_selection_inputs analysis description =
     [(py ''description'', JStr description),
      (py ''bot_purpose'', get analysis (py ''bot_purpose'') (JStr [])),
      (py ''key_features'', get analysis (py ''key_features'') (JStr [])),
      (py ''user_interactions'', get analysis (py ''user_interactions'') (JStr [])),
      (py ''complexity_level'', get analysis (py ''complexity_level'') (JStr (py ''simple''))),
      (py ''special_requirements'', get analysis (py ''special_requirements'') (JStr []))]"

definition tools_selection_chain ::
  "gateway \<Rightarrow> decoder \<Rightarrow> pydict \<Rightarrow> pystr \<Rightarrow> pydict \<times> event list" where
  "tools_selection_chain gw dec analysis description =
     structured_chain gw dec Selection (tools_selection_inputs analysis description) plain_log
       tools_selection_defaults"

definition bot_structure_defaults :: pydict where
  "bot_structure_defaults =
     [(py ''commands'', JStr (py ''/start, /help'')),
      (py ''handlers'', JStr (py ''command_handler, message_handler'')),
      (py ''states'', JStr []),
      (py ''keyboards'', JStr []),
      (py ''modules'', JStr (py ''main'')),
      (py ''data_models'', JStr []),
      (py ''helper_functions'', JStr [])]"

definition bot_structure_inputs :: "pydict \<Rightarrow> pydict \<Rightarrow> pystr \<Rightarrow> pydict" where
  "bot_structure_inputs analysis tools description =
     [(py ''description'', JStr description),
      (py ''bot_purpose'', get analysis (py ''bot_purpose'') (JStr [])),
      (py ''key_features'', get analysis (py ''key_features'') (JStr [])),
      (py ''complexity_level'', get analysis (py ''complexity_level'') (JStr (py ''simple''))),
      (py ''framework_version'', get tools (py ''framework_version'') (JStr (py ''aiogram 3.x''))),
      (py ''database'', get tools (py ''database'') (JStr (py ''none''))),
      (py ''additional_libraries'', get tools (py ''additional_libraries'') (JStr [])),
      (py ''state_management'', get tools (py ''state_management'') (JStr (py ''none'')))]"

definition bot_structure_chain ::
  "gateway \<Rightarrow> decoder \<Rightarrow> pydict \<Rightarrow> pydict \<Rightarrow> pystr \<Rightarrow> pydict \<times> event list" where
  "bot_structure_chain gw dec analysis tools description =
     structured_chain gw dec Structure (bot_structure_inputs analysis tools description)
       plain_log bot_structure_defaults"

definition code_inputs :: "pydict \<Rightarrow> pydict \<Rightarrow> pydict \<Rightarrow> pystr \<Rightarrow> pydict" where
  "code_inputs analysis tools structure description =
     [(py ''description'', JStr description),
      (py ''bot_purpose'', get analysis (py ''bot_purpose'') (JStr [])),
      (py ''key_features'', get analysis (py ''key_features'') (JStr [])),
      (py ''complexity_level'', get analysis (py ''complexity_level'') (JStr (py ''simple''))),
      (py ''framework_version'', get tools (py ''framework_version'') (JStr (py ''aiogram 3.x''))),
      (py ''database'', get tools (py ''database'') (JStr (py ''none''))),
      (py ''additional_libraries'', get tools (py ''additional_libraries'') (JList [])),
      (py ''state_management'', get tools (py ''state_management'') (JStr (py ''none''))),
      (py ''commands'', get structure (py ''commands'') (JList [])),
      (py ''handlers'', get structure (py ''handlers'') (JList [])),
      (py ''states'', get structure (py ''states'') (JList [])),
      (py ''keyboards'', get structure (py ''keyboards'') (JList [])),
      (py ''modules'', get structure (py ''modules'') (JList [])),
      (py ''data_models'', get structure (py ''data_models'') (JList [])),
      (py ''helper_functions'', get structure (py ''helper_functions'') (JList []))]"

text \<open>
  Stage 4 has no \<open>try\<close>: a failure of the model call leaves the function as an
  exception. The returned text goes through the fence removal.
\<close>

definition code_chain ::
  "gateway \<Rightarrow> pydict \<Rightarrow> pydict \<Rightarrow> pydict \<Rightarrow> pystr \<Rightarrow> (exn + pystr) \<times> event list" where
  "code_chain gw analysis tools structure description =
     (case gw Generation (code_inputs analysis tools structure description) of
        Inl f \<Rightarrow> (Inl (GatewayError f), [Started Generation])
      | Inr content \<Rightarrow>
          (case unwrap content of
             Inl e \<Rightarrow> (Inl e, [Started Generation])
           | Inr code \<Rightarrow> (Inr code, [Started Generation, Completed Generation])))"

definition bot_review_defaults :: pydict where
  "bot_review_defaults =
     [(py ''is_valid'', JStr (py ''yes'')),
      (py ''syntax_errors'', JStr (py ''none'')),
      (py ''structure_issues'', JStr (py ''none'')),
      (py ''import_issues'', JStr (py ''none'')),
      (py ''recommendations'',
         JStr [1050, 1086, 1076, 32, 1075, 1086, 1090, 1086, 1074, 32, 1082, 32, 1080, 1089,
               1087, 1086, 1083, 1100, 1079, 1086, 1074, 1072, 1085, 1080, 1102])]"

definition bot_review_inputs :: "pystr \<Rightarrow> pydict" where
  "bot_review_inputs code = [(py ''code'', JStr code)]"

definition bot_review_chain :: "gateway \<Rightarrow> decoder \<Rightarrow> pystr \<Rightarrow> pydict \<times> event list" where
  "bot_review_chain gw dec code =
     structured_chain gw dec Review (bot_review_inputs code) plain_log bot_review_defaults"

subsection \<open>script\_post.py\<close>

text \<open>\<open>source_text if source_text else "..."\<close> (the literal says that none was given).\<close>

definition source_or_placeholder :: "pystr \<Rightarrow> pystr" where
  "source_or_placeholder source_text =
     (if source_text \<noteq> [] then source_text
      else [1053, 1077, 32, 1087, 1088, 1077, 1076, 1086, 1089, 1090, 1072, 1074, 1083, 1077,
            1085])"

definition post_analysis_defaults :: pydict where
  "post_analysis_defaults =
     [(py ''post_goal'',
         JStr [1048, 1085, 1092, 1086, 1088, 1084, 1080, 1088, 1086, 1074, 1072, 1085, 1080,
               1077]),
      (py ''target_audience'',
         JStr [1064, 1080, 1088, 1086, 1082, 1072, 1103, 32, 1072, 1091, 1076, 1080, 1090,
               1086, 1088, 1080, 1103]),
      (py ''key_messages'',
         JStr [1054, 1089, 1085, 1086, 1074, 1085, 1072, 1103, 32, 1080, 1085, 1092, 1086,
               1088, 1084, 1072, 1094, 1080, 1103, 32, 1087, 1086, 32, 1090, 1077, 1084,
               1077]),
      (py ''tone_style'',
         JStr [1053, 1077, 1081, 1090, 1088, 1072, 1083, 1100, 1085, 1099, 1081]),
      (py ''desired_length'', JStr (py ''medium''))]"

definition post_analysis_inputs :: "pystr \<Rightarrow> pystr \<Rightarrow> pydict" where
  "post_analysis_inputs topic source_text =
     [(py ''topic'', JStr topic),
      (py ''source_text'', JStr (source_or_placeholder source_text))]"

definition post_analysis_chain ::
  "gateway \<Rightarrow> decoder \<Rightarrow> pystr \<Rightarrow> pystr \<Rightarrow> pydict \<times> event list" where
  "post_analysis_chain gw dec topic source_text =
     structured_chain gw dec Analysis (post_analysis_inputs topic source_text) plain_log
       post_analysis_defaults"

definition style_selection_defaults :: pydict where
  "style_selection_defaults =
     [(py ''structure'',
         JStr [1047, 1072, 1075, 1086, 1083, 1086, 1074, 1086, 1082, 44, 32, 1086, 1089,
               1085, 1086, 1074, 1085, 1086, 1081, 32, 1090, 1077, 1082, 1089, 1090, 44, 32,
               1079, 1072, 1082, 1083, 1102, 1095, 1077, 1085, 1080, 1077]),
      (py ''use_emoji'', JStr (py ''no'')),
      (py ''emoji_style'', JStr []),
      (py ''cta'', JStr [1053, 1077, 1090]),
      (py ''hashtags'', JStr [1053, 1077, 1090]),
      (py ''formatting'', JStr [1040, 1073, 1079, 1072, 1094, 1099])]"

definition style_selection_inputs :: "pydict \<Rightarrow> pystr \<Rightarrow> pydict" where
  "style_selection_inputs analysis topic =
     [(py ''topic'', JStr topic),
      (py ''post_goal'', get analysis (py ''post_goal'') (JStr [])),
      (py ''target_audience'', get analysis (py ''target_audience'') (JStr [])),
      (py ''key_messages'', get analysis (py ''key_messages'') (JStr [])),
      (py ''tone_style'', get analysis (py ''tone_style'') (JStr [])),
      (py ''desired_length'', get analysis (py ''desired_length'') (JStr (py ''medium'')))]"

definition style_selection_chain ::
  "gateway \<Rightarrow> decoder \<Rightarrow> pydict \<Rightarrow> pystr \<Rightarrow> pydict \<times> event list" where
  "style_selection_chain gw dec analysis topic =
     structured_chain gw dec Selection (style_selection_inputs analysis topic) plain_log
       style_selection_defaults"

definition post_structure_defaults :: pydict where
  "post_structure_defaults =
     [(py ''headline'', JStr [1047, 1072, 1075, 1086, 1083, 1086, 1074, 1086, 1082]),
      (py ''intro'', JStr [1042, 1089, 1090, 1091, 1087, 1083, 1077, 1085, 1080, 1077]),
      (py ''main_blocks'',
         JStr [1054, 1089, 1085, 1086, 1074, 1085, 1086, 1081, 32, 1082, 1086, 1085, 1090,
               1077, 1085, 1090]),
      (py ''conclusion'', JStr [1047, 1072, 1082, 1083, 1102, 1095, 1077, 1085, 1080, 1077]),
      (py ''cta_text'', JStr [])]"

definition post_structure_inputs :: "pydict \<Rightarrow> pydict \<Rightarrow> pystr \<Rightarrow> pydict" where
  "post_structure_inputs analysis style topic =
     [(py ''topic'', JStr topic),
      (py ''post_goal'', get analysis (py ''post_goal'') (JStr [])),
      (py ''target_audience'', get analysis (py ''target_audience'') (JStr [])),
      (py ''tone_style'', get analysis (py ''tone_style'') (JStr [])),
      (py ''structure'', get style (py ''structure'') (JStr [])),
      (py ''use_emoji'', get style (py ''use_emoji'') (JStr (py ''no''))),
      (py ''cta'', get style (py ''cta'') (JStr [])),
      (py ''hashtags'', get style (py ''hashtags'') (JStr []))]"

text \<open>
  The log line of this stage is
  \<open>logger.info(f"... {result.get('headline', 'N/A')[:50]}")\<close>: it slices the headline.
\<close>

definition headline_log :: "pydict \<Rightarrow> exn + unit" where
  "headline_log fields =
     (case slice_to 50 (get fields (py ''headline'') (JStr (py ''N/A''))) of
        Inl e \<Rightarrow> Inl e
      | Inr v \<Rightarrow> Inr ())"

definition post_structure_chain ::
  "gateway \<Rightarrow> decoder \<Rightarrow> pydict \<Rightarrow> pydict \<Rightarrow> pystr \<Rightarrow> pydict \<times> event list" where
  "post_structure_chain gw dec analysis style topic =
     structured_chain gw dec Structure (post_structure_inputs analysis style topic)
       headline_log post_structure_defaults"

definition content_inputs :: "pydict \<Rightarrow> pydict \<Rightarrow> pydict \<Rightarrow> pystr \<Rightarrow> pystr \<Rightarrow> pydict" where
  "content_inputs analysis style structure topic source_text =
     [(py ''topic'', JStr topic),
      (py ''source_text'', JStr (source_or_placeholder source_text)),
      (py ''post_goal'', get analysis (py ''post_goal'') (JStr [])),
      (py ''target_audience'', get analysis (py ''target_audience'') (JStr [])),
      (py ''tone_style'', get analysis (py ''tone_style'') (JStr [])),
      (py ''desired_length'', get analysis (py ''desired_length'') (JStr (py ''medium''))),
      (py ''structure_format'', get style (py ''structure'') (JStr [])),
      (py ''use_emoji'', get style (py ''use_emoji'') (JStr (py ''no''))),
      (py ''formatting'', get style (py ''formatting'') (JStr [])),
      (py ''headline'', get structure (py ''headline'') (JStr [])),
      (py ''intro'', get structure (py ''intro'') (JStr [])),
      (py ''main_blocks'', get structure (py ''main_blocks'') (JStr [])),
      (py ''conclusion'', get structure (py ''conclusion'') (JStr [])),
      (py ''cta_text'', get structure (py ''cta_text'') (JStr []))]"

text \<open>Stage 4 of the post script: no \<open>try\<close>, and the text is only stripped.\<close>

definition content_generation_chain ::
  "gateway \<Rightarrow> pydict \<Rightarrow> pydict \<Rightarrow> pydict \<Rightarrow> pystr \<Rightarrow> pystr \<Rightarrow> (exn + pystr) \<times> event list"
  where
  "content_generation_chain gw analysis style structure topic source_text =
     (case gw Generation (content_inputs analysis style structure topic source_text) of
        Inl f \<Rightarrow> (Inl (GatewayError f), [Started Generation])
      | Inr result \<Rightarrow> (Inr (str_strip result), [Started Generation, Completed Generation]))"

definition post_review_defaults :: pydict where
  "post_review_defaults =
     [(py ''is_ready'', JStr (py ''yes'')),
      (py ''completeness'',
         JStr [1055, 1086, 1089, 1090, 32, 1079, 1072, 1074, 1077, 1088, 1096, 1077, 1085]),
      (py ''structure_quality'',
         JStr [1061, 1086, 1088, 1086, 1096, 1072, 1103, 32, 1089, 1090, 1088, 1091, 1082,
               1090, 1091, 1088, 1072]),
      (py ''engagement'',
         JStr [1044, 1086, 1089, 1090, 1072, 1090, 1086, 1095, 1085, 1086, 32, 1074, 1086,
               1074, 1083, 1077, 1082, 1072, 1102, 1097, 1080, 1081]),
      (py ''recommendations'',
         JStr [1055, 1086, 1089, 1090, 32, 1075, 1086, 1090, 1086, 1074, 32, 1082, 32, 1087,
               1091, 1073, 1083, 1080, 1082, 1072, 1094, 1080, 1080])]"

definition post_review_inputs :: "pystr \<Rightarrow> pydict" where
  "post_review_inputs post_content = [(py ''post_content'', JStr post_content)]"

definition post_review_chain :: "gateway \<Rightarrow> decoder \<Rightarrow> pystr \<Rightarrow> pydict \<times> event list" where
  "post_review_chain gw dec post_content =
     structured_chain gw dec Review (post_review_inputs post_content) plain_log
       post_review_defaults"

section \<open>Files and the clock\<close>

text \<open>
  The world a run acts on: the files by name (\<open>None\<close> for a file that does not exist),
  how the disk behaves, the clock reading, and the events so far. A file holds text;
  writing encodes it as UTF-8.
\<close>

datatype disk_state = DiskOk | OpenDenied | WriteFault

record datetime =
  year :: nat
  month :: nat
  day :: nat
  hour :: nat
  minute :: nat
  second :: nat

record world =
  files :: "string \<Rightarrow> pystr option"
  disk :: disk_state
  clock :: datetime
  trace :: "event list"

definition emit :: "event list \<Rightarrow> world \<Rightarrow> world" where
  "emit evs w = w\<lparr>trace := trace w @ evs\<rparr>"

text \<open>\<open>open(path, 'w', encoding='utf-8')\<close>: truncates the file, or raises.\<close>

definition open_w :: "string \<Rightarrow> world \<Rightarrow> (exn + unit) \<times> world" where
  "open_w path w =
     (let w1 = emit [OpenAttempt path] w in
      if disk w = OpenDenied then (Inl OSError, w1)
      else (Inr (), w1\<lparr>files := (files w1)(path \<mapsto> [])\<rparr>))"

text \<open>\<open>f.write(s)\<close> on the file opened at \<open>path\<close>.\<close>

definition f_write :: "string \<Rightarrow> pystr \<Rightarrow> world \<Rightarrow> (exn + unit) \<times> world" where
  "f_write path s w =
     (if \<not> encodable s then (Inl UnicodeEncodeError, w)
      else if disk w = WriteFault then (Inl OSError, w)
      else (Inr (),
            w\<lparr>files := (files w)(path \<mapsto> (case files w path of None \<Rightarrow> s | Some old \<Rightarrow> old @ s))\<rparr>))"

fun write_all :: "string \<Rightarrow> pystr list \<Rightarrow> world \<Rightarrow> (exn + unit) \<times> world" where
  "write_all path [] w = (Inr (), w)"
| "write_all path (s # ss) w =
     (case f_write path s w of
        (Inl e, w') \<Rightarrow> (Inl e, w')
      | (Inr u, w') \<Rightarrow> write_all path ss w')"

text \<open>The \<open>with open(...) as f:\<close> block: the writes in order, left at the first failure.\<close>

definition save :: "string \<Rightarrow> pystr list \<Rightarrow> world \<Rightarrow> (exn + unit) \<times> world" where
  "save path chunks w =
     (case open_w path w of
        (Inl e, w') \<Rightarrow> (Inl e, w')
      | (Inr u, w') \<Rightarrow> write_all path chunks w')"

text \<open>
  \<open>strftime('%Y-%m-%d %H:%M:%S')\<close>, for the four-digit years that \<open>datetime.now()\<close>
  returns.
\<close>

definition digits2 :: "nat \<Rightarrow> pystr" where
  "digits2 n = [48 + n div 10 mod 10, 48 + n mod 10]"

definition digits4 :: "nat \<Rightarrow> pystr" where
  "digits4 n = digits2 (n div 100) @ digits2 (n mod 100)"

definition strftime :: "datetime \<Rightarrow> pystr" where
  "strftime t =
     digits4 (year t) @ py ''-'' @ digits2 (month t) @ py ''-'' @ digits2 (day t) @ py '' ''
       @ digits2 (hour t) @ py '':'' @ digits2 (minute t) @ py '':'' @ digits2 (second t)"

section \<open>The two pipelines\<close>

subsection \<open>script\_bot.py, generate\_bot\<close>

text \<open>Lines 392-398: what is printed after the analysis.\<close>

definition bot_analysis_report :: "pydict \<Rightarrow> exn + unit" where
  "bot_analysis_report analysis =
     first_error
       [py_print (get analysis (py ''bot_purpose'') (JStr (py ''N/A''))),
        py_print (get analysis (py ''complexity_level'') (JStr (py ''N/A''))),
        print_clipped 100 (get analysis (py ''key_features'') (JStr (py ''N/A'')))]"

text \<open>Lines 404-409.\<close>

definition tools_report :: "pydict \<Rightarrow> exn + unit" where
  "tools_report tools =
     first_error
       [py_print (get tools (py ''framework_version'') (JStr (py ''N/A''))),
        py_print (get tools (py ''database'') (JStr (py ''none''))),
        py_print (get tools (py ''state_management'') (JStr (py ''none''))),
        (let additional_libs = get tools (py ''additional_libraries'') (JStr []) in
         if truthy additional_libs \<and> additional_libs \<noteq> JStr (py ''none'')
         then py_print additional_libs else Inr ())]"

text \<open>Lines 415-421.\<close>

definition bot_structure_report :: "pydict \<Rightarrow> exn + unit" where
  "bot_structure_report structure =
     first_error
       [py_print (get structure (py ''commands'') (JStr (py ''N/A''))),
        py_print (get structure (py ''handlers'') (JStr (py ''N/A''))),
        (let keyboards = get structure (py ''keyboards'') (JStr []) in
         if truthy keyboards then py_print keyboards else Inr ())]"

text \<open>
  Lines 434-438. \<open>review.get('recommendations')\<close> has no default, so a missing key
  reads as \<open>None\<close>; the literal compared with is the default recommendation.
\<close>

definition bot_review_report :: "pydict \<Rightarrow> exn + unit" where
  "bot_review_report review =
     first_error
       [py_print (get review (py ''is_valid'') (JStr (py ''yes''))),
        py_print (get review (py ''syntax_errors'') (JStr (py ''none''))),
        (let recommendations = get review (py ''recommendations'') JNull in
         if truthy recommendations
            \<and> recommendations
                \<noteq> JStr [1050, 1086, 1076, 32, 1075, 1086, 1090, 1086, 1074, 32, 1082, 32, 1080, 1089,
                   1087, 1086, 1083, 1100, 1079, 1086, 1074, 1072, 1085, 1080, 1102]
         then py_print recommendations else Inr ())]"

text \<open>
  Lines 388-438: the five chains in order, each followed by its messages. The value is
  the exception that left the function, or the tools and the code, with the events of
  the stages that ran.
\<close>

definition bot_chains ::
  "gateway \<Rightarrow> decoder \<Rightarrow> pystr \<Rightarrow> (exn + pydict \<times> pystr) \<times> event list" where
  "bot_chains gw dec description =
     (let (analysis, l1) = bot_analysis_chain gw dec description in
      case bot_analysis_report analysis of
        Inl e \<Rightarrow> (Inl e, l1)
      | Inr u1 \<Rightarrow>
     (let (tools, l2) = tools_selection_chain gw dec analysis description in
      case tools_report tools of
        Inl e \<Rightarrow> (Inl e, l1 @ l2)
      | Inr u2 \<Rightarrow>
     (let (structure, l3) = bot_structure_chain gw dec analysis tools description in
      case bot_structure_report structure of
        Inl e \<Rightarrow> (Inl e, l1 @ l2 @ l3)
      | Inr u3 \<Rightarrow>
     (let (r4, l4) = code_chain gw analysis tools structure description in
      case r4 of
        Inl e \<Rightarrow> (Inl e, l1 @ l2 @ l3 @ l4)
      | Inr code \<Rightarrow>
     (let (review, l5) = bot_review_chain gw dec code in
      case bot_review_report review of
        Inl e \<Rightarrow> (Inl e, l1 @ l2 @ l3 @ l4 @ l5)
      | Inr u5 \<Rightarrow> (Inr (tools, code), l1 @ l2 @ l3 @ l4 @ l5))))))"

definition bot_output :: string where
  "bot_output = ''generated_bot.py''"

text \<open>
  Lines 458-460, after the file is saved:
  \<open>if additional_libs and additional_libs != 'none' and additional_libs.strip():\<close>
  and then the message that names the libraries.
\<close>

definition libs_line :: "pydict \<Rightarrow> exn + unit" where
  "libs_line tools =
     (let additional_libs = get tools (py ''additional_libraries'') (JStr []) in
      if truthy additional_libs \<and> additional_libs \<noteq> JStr (py ''none'') then
        (case py_strip additional_libs of
           Inl e \<Rightarrow> Inl e
         | Inr v \<Rightarrow> (if truthy v then py_print additional_libs else Inr ()))
      else Inr ())"

text \<open>
  Lines 440-468: saving the code, then the closing messages. The message of the
  \<open>except\<close> clause prints the exception, whose text is ASCII.
\<close>

definition generate_bot ::
  "gateway \<Rightarrow> decoder \<Rightarrow> pystr \<Rightarrow> world \<Rightarrow> (exn + pystr) \<times> world" where
  "generate_bot gw dec description w =
     (case bot_chains gw dec description of
        (Inl e, l) \<Rightarrow> (Inl e, emit l w)
      | (Inr (tools, code), l) \<Rightarrow>
          (case save bot_output [code] (emit l w) of
             (Inl e, w') \<Rightarrow> (Inr code, emit [SaveFailed e] w')
           | (Inr u, w') \<Rightarrow>
               (case libs_line tools of
                  Inl e \<Rightarrow> (Inl e, emit [Saved bot_output] w')
                | Inr b \<Rightarrow> (Inr code, emit [Saved bot_output] w'))))"

subsection \<open>script\_post.py, generate\_post\<close>

text \<open>Lines 377-379: what is printed after the analysis.\<close>

definition post_analysis_report :: "pydict \<Rightarrow> exn + unit" where
  "post_analysis_report analysis =
     first_error
       [py_print (get analysis (py ''post_goal'') (JStr (py ''N/A''))),
        py_print (get analysis (py ''target_audience'') (JStr (py ''N/A''))),
        py_print (get analysis (py ''tone_style'') (JStr (py ''N/A'')))]"

text \<open>Lines 385-395.\<close>

definition style_report :: "pydict \<Rightarrow> exn + unit" where
  "style_report style =
     first_error
       [print_clipped 50 (get style (py ''structure'') (JStr (py ''N/A''))),
        py_print (get style (py ''use_emoji'') (JStr (py ''N/A''))),
        print_clipped 50 (get style (py ''cta'') (JStr (py ''N/A'')))]"

text \<open>
  Lines 401-405, between stages 3 and 4:
  \<open>if len(headline) > 60: ... headline[:60] ... else: ... headline ...\<close>,
  the value that is printed.
\<close>

definition headline_preview :: "pydict \<Rightarrow> exn + jvalue" where
  "headline_preview structure =
     (let headline = get structure (py ''headline'') (JStr (py ''N/A'')) in
      case py_len headline of
        Inl e \<Rightarrow> Inl e
      | Inr n \<Rightarrow> (if 60 < n then slice_to 60 headline else Inr headline))"

definition headline_report :: "pydict \<Rightarrow> exn + unit" where
  "headline_report structure =
     (case headline_preview structure of
        Inl e \<Rightarrow> Inl e
      | Inr v \<Rightarrow> py_print v)"

text \<open>Lines 418-426; the literal compared with is the default recommendation.\<close>

definition post_review_report :: "pydict \<Rightarrow> exn + unit" where
  "post_review_report review =
     first_error
       [py_print (get review (py ''is_ready'') (JStr (py ''yes''))),
        print_clipped 50 (get review (py ''structure_quality'') (JStr (py ''N/A''))),
        (let recommendations = get review (py ''recommendations'') JNull in
         if truthy recommendations
            \<and> recommendations
                \<noteq> JStr [1055, 1086, 1089, 1090, 32, 1075, 1086, 1090, 1086, 1074, 32, 1082, 32, 1087,
                   1091, 1073, 1083, 1080, 1082, 1072, 1094, 1080, 1080]
         then py_print recommendations else Inr ())]"

text \<open>Lines 373-426: the five chains in order, each followed by its messages.\<close>

definition post_chains ::
  "gateway \<Rightarrow> decoder \<Rightarrow> pystr \<Rightarrow> pystr \<Rightarrow> (exn + pystr) \<times> event list" where
  "post_chains gw dec topic source_text =
     (let (analysis, l1) = post_analysis_chain gw dec topic source_text in
      case post_analysis_report analysis of
        Inl e \<Rightarrow> (Inl e, l1)
      | Inr u1 \<Rightarrow>
     (let (style, l2) = style_selection_chain gw dec analysis topic in
      case style_report style of
        Inl e \<Rightarrow> (Inl e, l1 @ l2)
      | Inr u2 \<Rightarrow>
     (let (structure, l3) = post_structure_chain gw dec analysis style topic in
      case headline_report structure of
        Inl e \<Rightarrow> (Inl e, l1 @ l2 @ l3)
      | Inr u3 \<Rightarrow>
     (let (r4, l4) = content_generation_chain gw analysis style structure topic source_text in
      case r4 of
        Inl e \<Rightarrow> (Inl e, l1 @ l2 @ l3 @ l4)
      | Inr post_content \<Rightarrow>
     (let (review, l5) = post_review_chain gw dec post_content in
      case post_review_report review of
        Inl e \<Rightarrow> (Inl e, l1 @ l2 @ l3 @ l4 @ l5)
      | Inr u5 \<Rightarrow> (Inr post_content, l1 @ l2 @ l3 @ l4 @ l5))))))"

definition post_output :: string where
  "post_output = ''generated_post.txt''"

text \<open>
  The four \<open>f.write\<close> arguments of lines 432-435: the topic line, the date line, a rule
  of eighty \<open>=\<close> with a blank line, and the post.
\<close>

definition post_file_chunks :: "pystr \<Rightarrow> datetime \<Rightarrow> pystr \<Rightarrow> pystr list" where
  "post_file_chunks topic now post_content =
     [[35, 32, 1058, 1045, 1052, 1040, 58, 32] @ topic @ [10],
      [35, 32, 1044, 1072, 1090, 1072, 32, 1075, 1077, 1085, 1077, 1088, 1072, 1094, 1080,
       1080, 58, 32] @ strftime now @ [10],
      replicate 80 61 @ [10, 10],
      post_content]"

text \<open>
  Lines 428-451: saving the post, then printing it. The message of the \<open>except\<close>
  clause prints the exception, whose text is ASCII.
\<close>

definition generate_post ::
  "gateway \<Rightarrow> decoder \<Rightarrow> pystr \<Rightarrow> pystr \<Rightarrow> world \<Rightarrow> (exn + pystr) \<times> world" where
  "generate_post gw dec topic source_text w =
     (case post_chains gw dec topic source_text of
        (Inl e, l) \<Rightarrow> (Inl e, emit l w)
      | (Inr post_content, l) \<Rightarrow>
          (case save post_output (post_file_chunks topic (clock w) post_content) (emit l w) of
             (Inl e, w') \<Rightarrow> (Inr post_content, emit [SaveFailed e] w')
           | (Inr u, w') \<Rightarrow>
               (case py_print (JStr post_content) of
                  Inl e \<Rightarrow> (Inl e, emit [Saved post_output] w')
                | Inr b \<Rightarrow> (Inr post_content, emit [Saved post_output] w'))))"

section \<open>Stubs for concrete runs\<close>

definition world0 :: world where
  "world0 =
     \<lparr>files = Map.empty, disk = DiskOk,
      clock = \<lparr>year = 2024, month = 5, day = 17, hour = 9, minute = 30, second = 0\<rparr>,
      trace = []\<rparr>"

definition later :: datetime where
  "later = \<lparr>year = 2024, month = 5, day = 17, hour = 9, minute = 30, second = 1\<rparr>"

text \<open>A client that answers every prompt with the same short text.\<close>

definition gw_fixed :: gateway where
  "gw_fixed st inputs = Inr (py ''ok'')"

text \<open>A client that fails at one stage and answers all others.\<close>

definition gw_down_at :: "stage \<Rightarrow> gateway" where
  "gw_down_at s st inputs = (if st = s then Inl Transport else Inr (py ''ok''))"

text \<open>A client whose every answer is a fenced block.\<close>

definition gw_fenced :: gateway where
  "gw_fenced st inputs = Inr (FENCE_PYTHON @ [10] @ py ''pass'' @ [10] @ FENCE)"

text \<open>A parser that rejects everything, and one that decodes everything to one record.\<close>

definition dec_none :: decoder where
  "dec_none text = None"

text \<open>
  A parser that decodes everything to a record whose \<open>bot_purpose\<close> and \<open>post_goal\<close> are
  a lone surrogate, as the JSON text \<open>"\udc80"\<close> decodes.
\<close>

definition dec_surrogate :: decoder where
  "dec_surrogate text =
     Some (JObj [(py ''bot_purpose'', JStr [56448]), (py ''post_goal'', JStr [56448])])"

definition dec_record :: decoder where
  "dec_record text = Some (JObj [(py ''headline'', JStr (py ''Hi''))])"

text \<open>
  A client whose answer at one stage is not JSON, and a parser that decodes the text
  \<open>ok\<close> to a record and rejects every other text.
\<close>

definition gw_garbled_at :: "stage \<Rightarrow> gateway" where
  "gw_garbled_at s st inputs = (if st = s then Inr (py ''{'') else Inr (py ''ok''))"

definition dec_strict :: decoder where
  "dec_strict text =
     (if text = py ''ok'' then Some (JObj [(py ''headline'', JStr (py ''Hi''))]) else None)"

section \<open>Notions used in the statements\<close>

text \<open>
  A text fails structured decoding when the parser rejects it, or decodes it to
  something that is not a record.
\<close>

definition undecodable :: "decoder \<Rightarrow> pystr \<Rightarrow> bool" where
  "undecodable dec text =
     (case dec text of
        None \<Rightarrow> True
      | Some v \<Rightarrow> (case as_dict v of Inl e \<Rightarrow> True | Inr flds \<Rightarrow> False))"

text \<open>Events of the trace: an attempt to open the output file, the end of a stage.\<close>

fun is_open_attempt :: "event \<Rightarrow> bool" where
  "is_open_attempt (OpenAttempt p) = True"
| "is_open_attempt ev = False"

fun ends_stage :: "stage \<Rightarrow> event \<Rightarrow> bool" where
  "ends_stage s (Completed s') = (s = s')"
| "ends_stage s (Fallback s' e) = (s = s')"
| "ends_stage s ev = False"

text \<open>The events a run added to the trace.\<close>

definition new_events :: "world \<Rightarrow> world \<Rightarrow> event list" where
  "new_events w w' = drop (length (trace w)) (trace w')"


text \<open>Values on which \<open>v[:n]\<close> does not raise.\<close>

fun sliceable :: "jvalue \<Rightarrow> bool" where
  "sliceable (JStr s) = True"
| "sliceable (JList xs) = True"
| "sliceable v = False"

text \<open>A decoded value that is a string free of surrogates, and a record of such values.\<close>

fun plain_value :: "jvalue \<Rightarrow> bool" where
  "plain_value (JStr s) = encodable s"
| "plain_value v = False"

definition plain_record :: "pydict \<Rightarrow> bool" where
  "plain_record flds = list_all (\<lambda>kv. plain_value (snd kv)) flds"

text \<open>
  The client answers the prompt \<open>i\<close> of stage \<open>st\<close> with a text that either fails
  structured decoding or decodes to a record of strings.
\<close>

definition answers_plainly :: "gateway \<Rightarrow> decoder \<Rightarrow> stage \<Rightarrow> pydict \<Rightarrow> bool" where
  "answers_plainly gw dec st i =
     (case gw st i of
        Inl f \<Rightarrow> False
      | Inr text \<Rightarrow>
          undecodable dec text
          \<or> (case dec text of Some (JObj flds) \<Rightarrow> plain_record flds | _ \<Rightarrow> False))"

text \<open>
  The records the first three stages of a run hand on, and the variables of the prompt
  of its generation stage.
\<close>

definition bot_analysis_of :: "gateway \<Rightarrow> decoder \<Rightarrow> pystr \<Rightarrow> pydict" where
  "bot_analysis_of gw dec d = fst (bot_analysis_chain gw dec d)"

definition bot_tools_of :: "gateway \<Rightarrow> decoder \<Rightarrow> pystr \<Rightarrow> pydict" where
  "bot_tools_of gw dec d = fst (tools_selection_chain gw dec (bot_analysis_of gw dec d) d)"

definition bot_structure_of :: "gateway \<Rightarrow> decoder \<Rightarrow> pystr \<Rightarrow> pydict" where
  "bot_structure_of gw dec d =
     fst (bot_structure_chain gw dec (bot_analysis_of gw dec d) (bot_tools_of gw dec d) d)"

definition bot_prompt :: "gateway \<Rightarrow> decoder \<Rightarrow> pystr \<Rightarrow> pydict" where
  "bot_prompt gw dec d =
     code_inputs (bot_analysis_of gw dec d) (bot_tools_of gw dec d) (bot_structure_of gw dec d) d"

definition post_analysis_of :: "gateway \<Rightarrow> decoder \<Rightarrow> pystr \<Rightarrow> pystr \<Rightarrow> pydict" where
  "post_analysis_of gw dec topic src = fst (post_analysis_chain gw dec topic src)"

definition post_style_of :: "gateway \<Rightarrow> decoder \<Rightarrow> pystr \<Rightarrow> pystr \<Rightarrow> pydict" where
  "post_style_of gw dec topic src =
     fst (style_selection_chain gw dec (post_analysis_of gw dec topic src) topic)"

definition post_structure_of :: "gateway \<Rightarrow> decoder \<Rightarrow> pystr \<Rightarrow> pystr \<Rightarrow> pydict" where
  "post_structure_of gw dec topic src =
     fst (post_structure_chain gw dec (post_analysis_of gw dec topic src)
            (post_style_of gw dec topic src) topic)"

definition post_prompt :: "gateway \<Rightarrow> decoder \<Rightarrow> pystr \<Rightarrow> pystr \<Rightarrow> pydict" where
  "post_prompt gw dec topic src =
     content_inputs (post_analysis_of gw dec topic src) (post_style_of gw dec topic src)
       (post_structure_of gw dec topic src) topic src"

section \<open>Facts about splitting\<close>

lemma FENCE_eq: "FENCE = [96, 96, 96]"
  by (simp add: FENCE_def py_def)

lemma FENCE_PYTHON_eq: "FENCE_PYTHON = [96, 96, 96, 112, 121, 116, 104, 111, 110]"
  by (simp add: FENCE_PYTHON_def py_def)

lemma startswith_iff: "startswith s p \<longleftrightarrow> (\<exists>r. s = p @ r)"
  by (induction s p rule: startswith.induct) auto

lemma split_first_None_iff: "split_first sep s = None \<longleftrightarrow> \<not> contains sep s"
  by (induction s) (auto split: option.splits)


lemma split_first_decomp: "split_first sep s = Some (a, b) \<Longrightarrow> s = a @ sep @ b"
proof (induction s arbitrary: a b)
  case Nil
  then show ?case by (auto split: if_splits)
next
  case (Cons c cs)
  show ?case
  proof (cases "startswith (c # cs) sep")
    case True
    then obtain r where r: "c # cs = sep @ r"
      by (auto simp: startswith_iff)
    from True Cons.prems have "a = []" and "b = drop (length sep) (c # cs)"
      by auto
    with r show ?thesis by simp
  next
    case False
    with Cons show ?thesis by (auto split: option.splits)
  qed
qed

lemma split_first_opening: "sep \<noteq> [] \<Longrightarrow> split_first sep (sep @ r) = Some ([], r)"
  by (cases sep) (auto simp: startswith_iff)

lemma before_Nil: "before sep [] = []"
  by (simp add: before_def)

lemma before_Cons:
  "before sep (c # cs) = (if startswith (c # cs) sep then [] else c # before sep cs)"
  by (simp add: before_def split: option.splits)

lemma before_no_sep: "\<not> contains sep s \<Longrightarrow> before sep s = s"
  by (simp add: before_def split_first_None_iff [symmetric])



lemma index0_split: "sep \<noteq> [] \<Longrightarrow> py_index (str_split sep s) 0 = Inr (before sep s)"
  by (subst str_split.simps) (simp add: py_index_def before_def split: option.splits)

lemma index1_split:
  "sep \<noteq> [] \<Longrightarrow> split_first sep s = Some (a, b) \<Longrightarrow>
   py_index (str_split sep s) (Suc 0) = Inr (before sep b)"
  by (subst str_split.simps, subst str_split.simps)
     (simp add: py_index_def before_def split: option.splits)

lemma contains_python_fence: "contains FENCE_PYTHON s \<Longrightarrow> contains FENCE s"
  by (induction s) (auto simp: startswith_iff FENCE_eq FENCE_PYTHON_eq)

lemma startswith_before: "startswith (c # before sep s) p \<Longrightarrow> startswith (c # s) p"
proof (induction s arbitrary: c p)
  case Nil
  then show ?case by (simp add: before_Nil)
next
  case (Cons d ds)
  show ?case
  proof (cases p)
    case Nil
    then show ?thesis by simp
  next
    case (Cons q qs)
    with Cons.prems Cons.IH [of d qs] show ?thesis
      by (cases qs) (auto simp: before_Cons split: if_splits)
  qed
qed

lemma before_before_same: "before sep (before sep s) = before sep s"
proof (induction s)
  case Nil
  then show ?case by (simp add: before_Nil)
next
  case (Cons c cs)
  then show ?case
    using startswith_before [of c sep cs sep] by (auto simp: before_Cons before_Nil)
qed

text \<open>
  Cutting at the next tagged opening delimiter first does not move the closing
  delimiter, unless a tagged opening delimiter starts one or two characters after it.
\<close>

lemma before_fence_python:
  "split_first FENCE b = Some (x, y) \<Longrightarrow>
   \<not> startswith y [96, 112, 121, 116, 104, 111, 110] \<Longrightarrow>
   \<not> startswith y [96, 96, 112, 121, 116, 104, 111, 110] \<Longrightarrow>
   before FENCE (before FENCE_PYTHON b) = x"
proof (induction b arbitrary: x)
  case Nil
  then show ?case by (simp add: FENCE_eq)
next
  case (Cons c cs)
  show ?case
  proof (cases "startswith (c # cs) FENCE")
    case True
    with Cons.prems have x: "x = []" and y: "c # cs = 96 # 96 # 96 # y"
      by (auto simp: FENCE_eq startswith_iff)
    have "before FENCE (before FENCE_PYTHON (96 # 96 # 96 # y)) = []"
    proof (cases "startswith y [112, 121, 116, 104, 111, 110]")
      case True
      then show ?thesis
        by (simp add: before_Cons before_Nil FENCE_eq FENCE_PYTHON_eq)
    next
      case False
      with Cons.prems(2,3) show ?thesis
        by (simp add: before_Cons before_Nil FENCE_eq FENCE_PYTHON_eq)
    qed
    with x y show ?thesis by simp
  next
    case False
    with Cons.prems obtain x' where x': "split_first FENCE cs = Some (x', y)" "x = c # x'"
      by (auto split: option.splits)
    have np: "\<not> startswith (c # cs) FENCE_PYTHON"
      using False by (auto simp: startswith_iff FENCE_eq FENCE_PYTHON_eq)
    have "\<not> startswith (c # before FENCE_PYTHON cs) FENCE"
      using False startswith_before by blast
    with np Cons.IH [OF x'(1) Cons.prems(2,3)] x'(2) show ?thesis
      by (simp add: before_Cons)
  qed
qed

lemma strip_fence_tagged:
  assumes "split_first FENCE_PYTHON s = Some (a, b)"
  shows "strip_fence s = Inr (before FENCE (before FENCE_PYTHON b))"
proof -
  have c: "contains FENCE_PYTHON s"
    using assms split_first_None_iff [of FENCE_PYTHON s] by auto
  have n: "FENCE_PYTHON \<noteq> []" "FENCE \<noteq> []"
    by (simp_all add: FENCE_eq FENCE_PYTHON_eq)
  show ?thesis
    using c by (simp add: strip_fence_def index1_split [OF n(1) assms] index0_split [OF n(2)])
qed

lemma strip_fence_untagged:
  assumes "\<not> contains FENCE_PYTHON s" and "split_first FENCE s = Some (a, b)"
  shows "strip_fence s = Inr (before FENCE b)"
proof -
  have c: "contains FENCE s"
    using assms(2) split_first_None_iff [of FENCE s] by auto
  have n: "FENCE \<noteq> []"
    by (simp add: FENCE_eq)
  show ?thesis
    using c assms(1)
    by (simp add: strip_fence_def index1_split [OF n assms(2)] index0_split [OF n]
        before_before_same)
qed

lemma strip_fence_plain: "\<not> contains FENCE s \<Longrightarrow> strip_fence s = Inr s"
  using contains_python_fence [of s] by (auto simp: strip_fence_def)



lemma split_first_closing:
  "\<not> contains FENCE t \<Longrightarrow> t = [] \<or> last t \<noteq> 96 \<Longrightarrow>
   split_first FENCE (t @ FENCE @ rest) = Some (t, rest)"
proof (induction t)
  case Nil
  then show ?case by (simp add: FENCE_eq)
next
  case (Cons c cs)
  have "\<not> startswith (c # cs @ FENCE @ rest) FENCE"
  proof (cases cs)
    case Nil
    with Cons.prems show ?thesis by (simp add: FENCE_eq)
  next
    case (Cons d ds)
    with Cons.prems show ?thesis
      by (cases ds) (auto simp: FENCE_eq split: if_splits)
  qed
  moreover have "split_first FENCE (cs @ FENCE @ rest) = Some (cs, rest)"
    using Cons by (auto split: if_splits)
  ultimately show ?case by simp
qed

section \<open>What the fence removal returns\<close>

lemmas unwrap_eval = unwrap_def strip_fence_def FENCE_eq FENCE_PYTHON_eq py_def py_index_def
  str_split.simps str_strip_def is_space_def before_def

lemma contains_python_snoc: "contains FENCE_PYTHON (u @ [96]) \<Longrightarrow> contains FENCE_PYTHON u"
proof (induction u)
  case Nil
  then show ?case by (simp add: FENCE_PYTHON_eq)
next
  case (Cons c cs)
  have "startswith (c # cs) FENCE_PYTHON" if "startswith (c # cs @ [96]) FENCE_PYTHON"
  proof -
    from that obtain r where r: "c # cs @ [96] = FENCE_PYTHON @ r"
      by (auto simp: startswith_iff)
    show ?thesis
    proof (cases r rule: rev_cases)
      case Nil
      with r have "last (c # cs @ [96]) = last FENCE_PYTHON" by simp
      then show ?thesis by (simp add: FENCE_PYTHON_eq)
    next
      case (snoc r' z)
      with r have "(c # cs) @ [96] = (FENCE_PYTHON @ r') @ [z]" by simp
      then have "c # cs = FENCE_PYTHON @ r'" by (simp only: append1_eq_conv)
      then show ?thesis by (auto simp: startswith_iff)
    qed
  qed
  with Cons show ?case by auto
qed

lemma contains_python_fence_end:
  "contains FENCE_PYTHON (u @ FENCE) \<Longrightarrow> contains FENCE_PYTHON u"
proof -
  assume "contains FENCE_PYTHON (u @ FENCE)"
  then have "contains FENCE_PYTHON (((u @ [96]) @ [96]) @ [96])"
    by (simp add: FENCE_eq)
  then show ?thesis
    using contains_python_snoc by blast
qed

lemma before_closing:
  "\<not> contains FENCE t \<Longrightarrow> t = [] \<or> last t \<noteq> 96 \<Longrightarrow> before FENCE (t @ FENCE @ rest) = t"
  by (simp add: before_def split_first_closing)

lemma str_strip_id:
  "t = [] \<or> (\<not> is_space (hd t) \<and> \<not> is_space (last t)) \<Longrightarrow> str_strip t = t"
proof (cases t)
  case Nil
  then show ?thesis by (simp add: str_strip_def)
next
  case (Cons c cs)
  assume "t = [] \<or> (\<not> is_space (hd t) \<and> \<not> is_space (last t))"
  with Cons have h: "\<not> is_space c" and l: "\<not> is_space (last t)" by auto
  from h Cons have 1: "dropWhile is_space t = t" by simp
  from Cons have "t \<noteq> []" by simp
  with l have "\<not> is_space (hd (rev t))"
    by (simp add: hd_rev)
  then have 2: "dropWhile is_space (rev t) = rev t"
    by (cases "rev t") auto
  show ?thesis by (simp add: str_strip_def 1 2)
qed

lemma unwrap_tagged_wrap:
  assumes "\<not> contains FENCE t" and "t = [] \<or> last t \<noteq> 96"
  shows "unwrap (FENCE_PYTHON @ t @ FENCE) = Inr (str_strip t)"
proof -
  have n: "FENCE_PYTHON \<noteq> []" by (simp add: FENCE_PYTHON_eq)
  have 1: "split_first FENCE_PYTHON (FENCE_PYTHON @ t @ FENCE) = Some ([], t @ FENCE)"
    by (rule split_first_opening [OF n])
  have 2: "split_first FENCE (t @ FENCE) = Some (t, [])"
    using split_first_closing [OF assms, of "[]"] by simp
  have "before FENCE (before FENCE_PYTHON (t @ FENCE)) = t"
    by (rule before_fence_python [OF 2]) simp_all
  with strip_fence_tagged [OF 1] show ?thesis by (simp add: unwrap_def)
qed

lemma unwrap_untagged_wrap:
  assumes "\<not> contains FENCE t" and "t = [] \<or> last t \<noteq> 96"
    and "\<not> contains FENCE_PYTHON (FENCE @ t)"
  shows "unwrap (FENCE @ t @ FENCE) = Inr (str_strip t)"
proof -
  have n: "FENCE \<noteq> []" by (simp add: FENCE_eq)
  have 0: "\<not> contains FENCE_PYTHON (FENCE @ t @ FENCE)"
    using assms(3) contains_python_fence_end [of "FENCE @ t"] by auto
  have 1: "split_first FENCE (FENCE @ t @ FENCE) = Some ([], t @ FENCE)"
    by (rule split_first_opening [OF n])
  have "before FENCE (t @ FENCE) = t"
    using before_closing [OF assms(1,2), of "[]"] by simp
  with strip_fence_untagged [OF 0 1] show ?thesis by (simp add: unwrap_def)
qed

text \<open>
  C4, as amended. For a text \<open>t\<close> that contains no \<open>```\<close> and does not end in a backtick,
  wrapping \<open>t\<close> between the tagged opening delimiter and the closing delimiter and
  unwrapping returns \<open>t\<close> with leading and trailing whitespace removed, hence exactly
  \<open>t\<close> when \<open>t\<close> neither starts nor ends with whitespace. The same holds for the
  untagged opening delimiter when it does not read, together with the start of \<open>t\<close>,
  as a tagged one.
\<close>

theorem unwrap_round_trip:
  assumes "\<not> contains FENCE t" and "t = [] \<or> last t \<noteq> 96"
  shows "unwrap (FENCE_PYTHON @ t @ FENCE) = Inr (str_strip t)
    \<and> (\<not> contains FENCE_PYTHON (FENCE @ t) \<longrightarrow> unwrap (FENCE @ t @ FENCE) = Inr (str_strip t))
    \<and> (t = [] \<or> (\<not> is_space (hd t) \<and> \<not> is_space (last t)) \<longrightarrow>
         unwrap (FENCE_PYTHON @ t @ FENCE) = Inr t)"
  using unwrap_tagged_wrap [OF assms] unwrap_untagged_wrap [OF assms] str_strip_id [of t]
  by auto

text \<open>The round trip on \<open>x = 1\<close>, with either opening delimiter.\<close>

theorem unwrap_round_trip_witness:
  "unwrap (FENCE_PYTHON @ py ''x = 1'' @ FENCE) = Inr (py ''x = 1'')
   \<and> unwrap (FENCE @ py ''x = 1'' @ FENCE) = Inr (py ''x = 1'')"
proof -
  have a: "\<not> contains FENCE (py ''x = 1'')"
    by (simp add: FENCE_eq py_def)
  have b: "py ''x = 1'' = [] \<or> last (py ''x = 1'') \<noteq> 96"
    by (simp add: py_def)
  have c: "\<not> contains FENCE_PYTHON (FENCE @ py ''x = 1'')"
    by (simp add: FENCE_eq FENCE_PYTHON_eq py_def)
  have d: "py ''x = 1'' = [] \<or> (\<not> is_space (hd (py ''x = 1'')) \<and> \<not> is_space (last (py ''x = 1'')))"
    by (simp add: py_def is_space_def)
  have e: "str_strip (py ''x = 1'') = py ''x = 1''"
    by (simp add: py_def is_space_def str_strip_def)
  from unwrap_round_trip [OF a b] c d e show ?thesis
    by simp
qed

text \<open>
  C4 as stated fails: a text ending in a newline comes back without it, and a text
  ending in a backtick loses that backtick to the closing delimiter.
\<close>

theorem unwrap_round_trip_counterexample:
  "\<not> contains FENCE (py ''x = 1'' @ [10])
   \<and> unwrap (FENCE_PYTHON @ (py ''x = 1'' @ [10]) @ FENCE) \<noteq> Inr (py ''x = 1'' @ [10])
   \<and> \<not> contains FENCE (py ''x = `1`'')
   \<and> unwrap (FENCE_PYTHON @ py ''x = `1`'' @ FENCE) \<noteq> Inr (py ''x = `1`'')"
  by (simp add: unwrap_eval)

text \<open>
  C5, as amended. The result is always trimmed of leading and trailing whitespace.
  With a tagged opening delimiter in the text, it is the trimmed text between the
  first tagged opening delimiter and the next closing delimiter (to the end of the text
  when none follows), provided no further tagged opening delimiter starts one or two
  characters after that closing delimiter. Without a tagged delimiter but with an
  untagged one, it is the trimmed text between the first delimiter and the next.
  Without any delimiter it is the trimmed text. Whatever follows the first closing
  delimiter, further fenced blocks included, does not reach the result.
\<close>

theorem unwrap_cases:
  "(split_first FENCE_PYTHON s = Some (pre, b) \<and> closes_cleanly b
      \<longrightarrow> unwrap s = Inr (str_strip (before FENCE b)))
   \<and> (\<not> contains FENCE_PYTHON s \<and> split_first FENCE s = Some (pre, b)
      \<longrightarrow> unwrap s = Inr (str_strip (before FENCE b)))
   \<and> (\<not> contains FENCE s \<longrightarrow> unwrap s = Inr (str_strip s))
   \<and> ((split_first FENCE_PYTHON s = Some (pre, body @ FENCE @ trailing)
          \<and> \<not> startswith trailing (py ''`python'') \<and> \<not> startswith trailing (py ''``python'')
        \<or> \<not> contains FENCE_PYTHON s \<and> split_first FENCE s = Some (pre, body @ FENCE @ trailing))
       \<and> \<not> contains FENCE body \<and> (body = [] \<or> last body \<noteq> 96)
      \<longrightarrow> unwrap s = Inr (str_strip body))"
proof -
  have tagged: "unwrap s = Inr (str_strip (before FENCE b))"
    if sp: "split_first FENCE_PYTHON s = Some (pre, b)" and cl: "closes_cleanly b" for pre b
  proof (cases "split_first FENCE b")
    case None
    then have "\<not> contains FENCE b" by (simp add: split_first_None_iff)
    then have "before FENCE_PYTHON b = b"
      using contains_python_fence before_no_sep by blast
    with strip_fence_tagged [OF sp] show ?thesis by (simp add: unwrap_def)
  next
    case (Some xy)
    obtain x y where xy: "xy = (x, y)" by (cases xy)
    with Some cl have "\<not> startswith y [96, 112, 121, 116, 104, 111, 110]"
      and "\<not> startswith y [96, 96, 112, 121, 116, 104, 111, 110]"
      by (simp_all add: closes_cleanly_def py_def)
    with Some xy have "before FENCE (before FENCE_PYTHON b) = x"
      using before_fence_python by blast
    with Some xy strip_fence_tagged [OF sp] show ?thesis
      by (simp add: unwrap_def before_def)
  qed
  have untagged: "unwrap s = Inr (str_strip (before FENCE b))"
    if "\<not> contains FENCE_PYTHON s" and "split_first FENCE s = Some (pre, b)" for pre b
    using strip_fence_untagged [OF that] by (simp add: unwrap_def)
  have plain: "unwrap s = Inr (str_strip s)" if "\<not> contains FENCE s"
    using strip_fence_plain [OF that] by (simp add: unwrap_def)
  have first_pair: "unwrap s = Inr (str_strip body)"
    if sp: "split_first FENCE_PYTHON s = Some (pre, body @ FENCE @ trailing)
          \<and> \<not> startswith trailing (py ''`python'') \<and> \<not> startswith trailing (py ''``python'')
        \<or> \<not> contains FENCE_PYTHON s \<and> split_first FENCE s = Some (pre, body @ FENCE @ trailing)"
      and body: "\<not> contains FENCE body" "body = [] \<or> last body \<noteq> 96"
  proof -
    have c: "split_first FENCE (body @ FENCE @ trailing) = Some (body, trailing)"
      by (rule split_first_closing [OF body])
    then have b: "before FENCE (body @ FENCE @ trailing) = body"
      by (simp add: before_def)
    from sp show ?thesis
    proof
      assume t: "split_first FENCE_PYTHON s = Some (pre, body @ FENCE @ trailing)
          \<and> \<not> startswith trailing (py ''`python'') \<and> \<not> startswith trailing (py ''``python'')"
      with c have "closes_cleanly (body @ FENCE @ trailing)"
        by (simp add: closes_cleanly_def)
      with t tagged b show ?thesis by metis
    next
      assume "\<not> contains FENCE_PYTHON s
          \<and> split_first FENCE s = Some (pre, body @ FENCE @ trailing)"
      with untagged b show ?thesis by metis
    qed
  qed
  show ?thesis
    using tagged untagged plain first_pair by blast
qed

text \<open>
  A tagged block followed by a second one, a tagged block closed by four backticks, an
  untagged block, and plain text.
\<close>

theorem unwrap_cases_witness:
  "unwrap (py ''Here: ```python'' @ [10] @ py ''x = 1'' @ [10] @ py ''``` and ```python y``` end'')
     = Inr (py ''x = 1'')
   \<and> unwrap (py ''```python x ```` y'') = Inr (py ''x'')
   \<and> unwrap (py ''a ``` b ``` c ``` d'') = Inr (py ''b'')
   \<and> unwrap (py '' plain '') = Inr (py ''plain'')"
proof -
  let ?body = "[10] @ py ''x = 1'' @ [10]"
  let ?trail = "py '' and ```python y``` end''"
  let ?s = "py ''Here: ```python'' @ [10] @ py ''x = 1'' @ [10] @ py ''``` and ```python y``` end''"
  have a1: "split_first FENCE_PYTHON ?s = Some (py ''Here: '', ?body @ FENCE @ ?trail)"
    by (simp add: FENCE_eq FENCE_PYTHON_eq py_def)
  have a2: "\<not> contains FENCE ?body" "?body = [] \<or> last ?body \<noteq> 96"
    "\<not> startswith ?trail (py ''`python'')" "\<not> startswith ?trail (py ''``python'')"
    by (simp_all add: FENCE_eq py_def)
  have a3: "str_strip ?body = py ''x = 1''"
    by (simp add: py_def is_space_def str_strip_def)
  have d1: "split_first FENCE_PYTHON (py ''```python x ```` y'') = Some ([], py '' x ```` y'')"
    by (simp add: FENCE_PYTHON_eq py_def)
  have d2: "closes_cleanly (py '' x ```` y'')"
    by (simp add: closes_cleanly_def FENCE_eq py_def)
  have d3: "str_strip (before FENCE (py '' x ```` y'')) = py ''x''"
    by (simp add: before_def FENCE_eq py_def is_space_def str_strip_def)
  have b1: "\<not> contains FENCE_PYTHON (py ''a ``` b ``` c ``` d'')"
    by (simp add: FENCE_PYTHON_eq py_def)
  have b2: "split_first FENCE (py ''a ``` b ``` c ``` d'') = Some (py ''a '', py '' b ``` c ``` d'')"
    by (simp add: FENCE_eq py_def)
  have b3: "str_strip (before FENCE (py '' b ``` c ``` d'')) = py ''b''"
    by (simp add: before_def FENCE_eq py_def is_space_def str_strip_def)
  have c1: "\<not> contains FENCE (py '' plain '')"
    by (simp add: FENCE_eq py_def)
  have c2: "str_strip (py '' plain '') = py ''plain''"
    by (simp add: py_def is_space_def str_strip_def)
  have A: "unwrap ?s = Inr (str_strip ?body)"
    using unwrap_cases [of ?s "py ''Here: ''" "?body @ FENCE @ ?trail" ?body ?trail] a1 a2
    by blast
  have D: "unwrap (py ''```python x ```` y'') = Inr (str_strip (before FENCE (py '' x ```` y'')))"
    using unwrap_cases [of "py ''```python x ```` y''" "[]" "py '' x ```` y''" "[]" "[]"] d1 d2
    by blast
  have B: "unwrap (py ''a ``` b ``` c ``` d'') = Inr (str_strip (before FENCE (py '' b ``` c ``` d'')))"
    using unwrap_cases [of "py ''a ``` b ``` c ``` d''" "py ''a ''" "py '' b ``` c ``` d''" "[]" "[]"] b1 b2
    by blast
  have C: "unwrap (py '' plain '') = Inr (str_strip (py '' plain ''))"
    using unwrap_cases [of "py '' plain ''" "[]" "[]" "[]" "[]"] c1
    by blast
  from A a3 D d3 B b3 C c2 show ?thesis by simp
qed

text \<open>
  C5 as stated fails: the text strictly between the delimiters starts and ends with a
  newline, the result does not; and when a second tagged delimiter starts one character
  after the closing delimiter, the result is not the (empty) text before that closing
  delimiter.
\<close>

theorem unwrap_cases_counterexample:
  "split_first FENCE_PYTHON (py ''```python'' @ [10] @ py ''x = 1'' @ [10] @ py ''```'')
     = Some ([], [10] @ py ''x = 1'' @ [10] @ py ''```'')
   \<and> before FENCE ([10] @ py ''x = 1'' @ [10] @ py ''```'') = [10] @ py ''x = 1'' @ [10]
   \<and> unwrap (py ''```python'' @ [10] @ py ''x = 1'' @ [10] @ py ''```'')
       \<noteq> Inr ([10] @ py ''x = 1'' @ [10])
   \<and> split_first FENCE_PYTHON (py ''```python````python x'') = Some ([], py ''````python x'')
   \<and> before FENCE (py ''````python x'') = []
   \<and> unwrap (py ''```python````python x'') = Inr (py ''`'')"
  by (simp add: unwrap_eval)


section \<open>The fence removal never fails\<close>



end
